theory Spec2Isabelle
  imports Main "HOL-Library.Sublist"
begin

section \<open>The file system seen by the sweep code\<close>

text \<open>
  The cleanup code talks to the operating system through a handful of calls
  (\<^verbatim>\<open>exists\<close>, \<^verbatim>\<open>iterdir\<close>, \<^verbatim>\<open>stat\<close>, \<^verbatim>\<open>unlink\<close>, \<^verbatim>\<open>rmdir\<close>, \<^verbatim>\<open>os.rename\<close>).
  The model is a directory tree whose entries carry the outcome of each of these calls:
  a regular file knows its size and whether \<^verbatim>\<open>os.rename\<close> on it, \<^verbatim>\<open>stat\<close> and \<^verbatim>\<open>unlink\<close> succeed; a
  directory knows whether it can be listed and whether \<^verbatim>\<open>rmdir\<close> is permitted once it is empty.
  The order of the entries of a directory is the order in which the operating system lists
  them. A path is the list of its components. The tests \<^verbatim>\<open>is_file()\<close>, \<^verbatim>\<open>is_dir()\<close> and
  \<^verbatim>\<open>exists()\<close> are answered from the kind of the entry; \<open>stat_ok\<close> tells whether the later
  \<^verbatim>\<open>stat\<close> of the code that deletes or measures the file succeeds.
\<close>

type_synonym path = "string list"

text \<open>The \<^verbatim>\<open>OSError\<close> family raised by the file-system calls; every handler of the sweep
  code that names \<^verbatim>\<open>(PermissionError, OSError)\<close> catches all of them.\<close>

datatype oserror = PermissionError | NotADirectoryError | OSError

record fattr =
  st_size :: nat
  in_use :: bool
  stat_ok :: bool
  unlink_ok :: bool

record dattr =
  listable :: bool
  rmdir_ok :: bool

text \<open>\<open>Dangling\<close> is an entry that is neither a regular file nor a directory and for which
  \<^verbatim>\<open>exists()\<close> is false (a link whose target is gone). \<open>Denied\<close> is an entry on which
  every call is refused, so that the code cannot tell what it is: \<^verbatim>\<open>stat\<close>, \<^verbatim>\<open>unlink\<close> and
  \<^verbatim>\<open>os.listdir\<close> raise \<^verbatim>\<open>PermissionError\<close>, and so do the tests \<^verbatim>\<open>is_file()\<close>, \<^verbatim>\<open>is_dir()\<close>
  and \<^verbatim>\<open>exists()\<close> of \<^verbatim>\<open>pathlib.Path\<close>, which raise the error of \<^verbatim>\<open>stat\<close> again unless it
  says that the entry is missing; \<^verbatim>\<open>os.path.exists\<close> turns the error into \<open>False\<close>, and a
  directory listing (\<^verbatim>\<open>os.scandir\<close>), which does not call \<^verbatim>\<open>stat\<close>, shows the entry as one
  that is not a directory.\<close>

datatype node =
    File fattr
  | Dir dattr "(string \<times> node) list"
  | Dangling
  | Denied

definition rename_self :: "fattr \<Rightarrow> oserror + unit" where
  "rename_self a = (if in_use a then Inl PermissionError else Inr ())"

definition stat_size :: "fattr \<Rightarrow> oserror + nat" where
  "stat_size a = (if stat_ok a then Inr (st_size a) else Inl PermissionError)"

definition unlink :: "fattr \<Rightarrow> oserror + unit" where
  "unlink a = (if unlink_ok a then Inr () else Inl PermissionError)"

section \<open>Paths into the tree\<close>

text \<open>\<open>lookup fs p\<close> is the node found at path \<open>p\<close> below the node \<open>fs\<close>, the first entry of
  each name counting; \<open>put fs p n\<close> replaces it by \<open>n\<close>.\<close>

fun lookup :: "node \<Rightarrow> path \<Rightarrow> node option"
  and lookup_in :: "(string \<times> node) list \<Rightarrow> string \<Rightarrow> path \<Rightarrow> node option"
where
  "lookup n [] = Some n"
| "lookup (Dir a kids) (x # xs) = lookup_in kids x xs"
| "lookup (File a) (x # xs) = None"
| "lookup Dangling (x # xs) = None"
| "lookup Denied (x # xs) = None"
| "lookup_in [] x xs = None"
| "lookup_in ((name, n) # rest) x xs = (if name = x then lookup n xs else lookup_in rest x xs)"

fun put :: "node \<Rightarrow> path \<Rightarrow> node \<Rightarrow> node"
  and put_in :: "(string \<times> node) list \<Rightarrow> string \<Rightarrow> path \<Rightarrow> node \<Rightarrow> (string \<times> node) list"
where
  "put n [] n' = n'"
| "put (Dir a kids) (x # xs) n' = Dir a (put_in kids x xs n')"
| "put (File a) (x # xs) n' = File a"
| "put Dangling (x # xs) n' = Dangling"
| "put Denied (x # xs) n' = Denied"
| "put_in [] x xs n' = []"
| "put_in ((name, n) # rest) x xs n' =
     (if name = x then (name, put n xs n') # rest else (name, n) # put_in rest x xs n')"

definition is_dir :: "node \<Rightarrow> bool" where
  "is_dir n = (case n of Dir a kids \<Rightarrow> True | _ \<Rightarrow> False)"

text \<open>\<^verbatim>\<open>os.path.exists\<close>: false for a dangling link and when \<^verbatim>\<open>stat\<close> is refused.\<close>

definition path_exists :: "node \<Rightarrow> path \<Rightarrow> bool" where
  "path_exists fs p =
     (case lookup fs p of
        None \<Rightarrow> False | Some Dangling \<Rightarrow> False | Some Denied \<Rightarrow> False | Some _ \<Rightarrow> True)"

text \<open>\<^verbatim>\<open>Path.exists()\<close>: false for a dangling link, and raising when \<^verbatim>\<open>stat\<close> is refused.\<close>

definition exists_p :: "node \<Rightarrow> path \<Rightarrow> oserror + bool" where
  "exists_p fs p =
     (case lookup fs p of
        None \<Rightarrow> Inr False
      | Some Dangling \<Rightarrow> Inr False
      | Some Denied \<Rightarrow> Inl PermissionError
      | Some _ \<Rightarrow> Inr True)"

text \<open>What the code reads from the process environment: the variables \<^verbatim>\<open>TEMP\<close> and
  \<^verbatim>\<open>TMP\<close> (\<open>None\<close> when unset) and the home directory of the user.\<close>

record environ =
  TEMP :: "path option"
  TMP :: "path option"
  home :: path

section \<open>Version 1: \<^verbatim>\<open>PCCleanupTool\<close> (main.py)\<close>

datatype log_entry =
    Info_deleted path nat
  | Warning_in_use path
  | Error_failed_delete path oserror
  | Info_removed_dir path
  | Error_accessing path oserror

text \<open>The instance state of \<^verbatim>\<open>PCCleanupTool\<close>: the counters of \<^verbatim>\<open>self.cleanup_stats\<close> and
  the messages handed to \<^verbatim>\<open>self.logger\<close>, oldest first. The counters start at 0 and are only
  ever incremented, so they are natural numbers.\<close>

record tool =
  temp_files_deleted :: nat
  temp_size_freed :: nat
  browser_caches_cleared :: nat
  errors_encountered :: nat
  logger :: "log_entry list"

definition new_tool :: tool where
  "new_tool = \<lparr>temp_files_deleted = 0, temp_size_freed = 0, browser_caches_cleared = 0,
     errors_encountered = 0, logger = []\<rparr>"

definition is_file_in_use :: "fattr \<Rightarrow> bool" where
  "is_file_in_use a = (case rename_self a of Inr _ \<Rightarrow> False | Inl _ \<Rightarrow> True)"

text \<open>The body of the \<^verbatim>\<open>try\<close> of \<^verbatim>\<open>safe_delete_file\<close>. The file at \<^verbatim>\<open>filepath\<close> is given as
  \<open>Some\<close> of its attributes, or \<open>None\<close> when nothing exists there. The result is the returned
  boolean, what is at the path afterwards, and the new state; \<open>Inl\<close> is a raised exception
  (nothing has been mutated when one is raised).\<close>

definition safe_delete_file_body ::
  "path \<Rightarrow> fattr option \<Rightarrow> tool \<Rightarrow> oserror + (bool \<times> fattr option \<times> tool)" where
  "safe_delete_file_body filepath f st =
     (case f of
        None \<Rightarrow> Inr (False, None, st)
      | Some a \<Rightarrow>
          if is_file_in_use a
          then Inr (False, Some a, st\<lparr>logger := logger st @ [Warning_in_use filepath]\<rparr>)
          else (case stat_size a of
                  Inl e \<Rightarrow> Inl e
                | Inr file_size \<Rightarrow>
                    (case unlink a of
                       Inl e \<Rightarrow> Inl e
                     | Inr _ \<Rightarrow>
                         Inr (True, None,
                              st\<lparr>temp_files_deleted := temp_files_deleted st + 1,
                                 temp_size_freed := temp_size_freed st + file_size,
                                 logger := logger st @ [Info_deleted filepath file_size]\<rparr>))))"

definition safe_delete_file ::
  "path \<Rightarrow> fattr option \<Rightarrow> tool \<Rightarrow> bool \<times> fattr option \<times> tool" where
  "safe_delete_file filepath f st =
     (case safe_delete_file_body filepath f st of
        Inr r \<Rightarrow> r
      | Inl e \<Rightarrow>
          (False, f,
           st\<lparr>errors_encountered := errors_encountered st + 1,
              logger := logger st @ [Error_failed_delete filepath e]\<rparr>))"

text \<open>Lines 156 to 161: the attempt to remove a subdirectory after its contents were cleaned.
  A directory that cannot be listed, is not empty or may not be removed raises, and the
  handler passes. The result is what is left at the path.\<close>

definition try_remove_empty :: "path \<Rightarrow> node \<Rightarrow> tool \<Rightarrow> node option \<times> tool" where
  "try_remove_empty item n st =
     (case n of
        Dir a kids \<Rightarrow>
          if \<not> listable a then (Some n, st)
          else if kids \<noteq> [] then (Some n, st)
          else if rmdir_ok a then (None, st\<lparr>logger := logger st @ [Info_removed_dir item]\<rparr>)
          else (Some n, st)
      | _ \<Rightarrow> (Some n, st))"

definition keep :: "string \<Rightarrow> node option \<Rightarrow> (string \<times> node) list" where
  "keep name r = (case r of None \<Rightarrow> [] | Some n \<Rightarrow> [(name, n)])"

definition access_error :: "path \<Rightarrow> oserror \<Rightarrow> tool \<Rightarrow> tool" where
  "access_error directory e st =
     st\<lparr>logger := logger st @ [Error_accessing directory e],
        errors_encountered := errors_encountered st + 1\<rparr>"

text \<open>\<^verbatim>\<open>_clean_directory_recursive(directory, max_depth, current_depth)\<close>, on the node found at
  \<^verbatim>\<open>directory\<close>; \<open>clean_items\<close> is the body of its \<^verbatim>\<open>try\<close>: the
  \<^verbatim>\<open>for item in directory.iterdir()\<close> loop over the listing taken when the loop starts.
  Both return what is left on disk and the new state. The loop returns in addition the
  exception that ended it, if one did: no handler stands between the tests
  \<^verbatim>\<open>item.is_file()\<close> and \<^verbatim>\<open>item.is_dir()\<close> and the handler of the directory, so an error that
  they raise ends the loop with the entries after \<^verbatim>\<open>item\<close> unprocessed; what the rounds
  before it did stays done. The handler (lines 163 to 165) logs the error and counts
  it.\<close>

function clean_directory_recursive ::
    "nat \<Rightarrow> nat \<Rightarrow> path \<Rightarrow> node \<Rightarrow> tool \<Rightarrow> node \<times> tool"
  and clean_items ::
    "nat \<Rightarrow> nat \<Rightarrow> path \<Rightarrow> (string \<times> node) list \<Rightarrow> tool
       \<Rightarrow> (string \<times> node) list \<times> tool \<times> oserror option"
where
  "clean_directory_recursive max_depth current_depth directory (Dir a kids) st =
     (if current_depth > max_depth then (Dir a kids, st)
      else if listable a
      then (case clean_items max_depth current_depth directory kids st of
              (kids', st', None) \<Rightarrow> (Dir a kids', st')
            | (kids', st', Some e) \<Rightarrow> (Dir a kids', access_error directory e st'))
      else (Dir a kids, access_error directory PermissionError st))"
| "clean_directory_recursive max_depth current_depth directory (File a) st =
     (if current_depth > max_depth then (File a, st)
      else (File a, access_error directory NotADirectoryError st))"
| "clean_directory_recursive max_depth current_depth directory Dangling st =
     (if current_depth > max_depth then (Dangling, st)
      else (Dangling, access_error directory OSError st))"
| "clean_directory_recursive max_depth current_depth directory Denied st =
     (if current_depth > max_depth then (Denied, st)
      else (Denied, access_error directory PermissionError st))"
| "clean_items max_depth current_depth directory [] st = ([], st, None)"
| "clean_items max_depth current_depth directory ((name, File a) # rest) st =
     (case safe_delete_file (directory @ [name]) (Some a) st of
        (ok, r, st1) \<Rightarrow>
          (case clean_items max_depth current_depth directory rest st1 of
             (kids', st2, x) \<Rightarrow> (keep name (map_option File r) @ kids', st2, x)))"
| "clean_items max_depth current_depth directory ((name, Dir a kids) # rest) st =
     (if current_depth < max_depth
      then (case clean_directory_recursive max_depth (current_depth + 1) (directory @ [name])
                   (Dir a kids) st of
              (n1, st1) \<Rightarrow>
                (case try_remove_empty (directory @ [name]) n1 st1 of
                   (r, st2) \<Rightarrow>
                     (case clean_items max_depth current_depth directory rest st2 of
                        (kids', st3, x) \<Rightarrow> (keep name r @ kids', st3, x))))
      else (case clean_items max_depth current_depth directory rest st of
              (kids', st1, x) \<Rightarrow> ((name, Dir a kids) # kids', st1, x)))"
| "clean_items max_depth current_depth directory ((name, Dangling) # rest) st =
     (case clean_items max_depth current_depth directory rest st of
        (kids', st1, x) \<Rightarrow> ((name, Dangling) # kids', st1, x))"
| "clean_items max_depth current_depth directory ((name, Denied) # rest) st =
     ((name, Denied) # rest, st, Some PermissionError)"
  by pat_completeness auto
termination
  by (relation "measure (\<lambda>x. case x of
          Inl (md, cd, d, n, st) \<Rightarrow> 2 * size n
        | Inr (md, cd, d, items, st) \<Rightarrow> 2 * size_list (size_prod (\<lambda>x. 0) size) items + 1)")
     auto

section \<open>Version 1: \<^verbatim>\<open>PCCleanupTool.clean_temp_files\<close> (main.py)\<close>

text \<open>A \<^verbatim>\<open>Path\<close> built from an environment variable is \<open>Some\<close> path, or \<open>None\<close> for
  \<^verbatim>\<open>Path('')\<close> when the variable is unset. \<^verbatim>\<open>Path('')\<close> is the current directory of the
  process: it always exists and is a directory, and \<open>cwd\<close> is the path at which the tree
  holds it.\<close>

definition temp_dirs_v1 :: "environ \<Rightarrow> path option list" where
  "temp_dirs_v1 env =
     [TEMP env, TMP env, Some [''C:'', ''Windows'', ''Temp''],
      Some [''C:'', ''Windows'', ''Prefetch''],
      Some (home env @ [''AppData'', ''Local'', ''Temp''])]"

definition resolve :: "path \<Rightarrow> path option \<Rightarrow> path" where
  "resolve cwd d = (case d of None \<Rightarrow> cwd | Some p \<Rightarrow> p)"

definition dir_exists :: "node \<Rightarrow> path \<Rightarrow> bool" where
  "dir_exists fs p = (case lookup fs p of Some (Dir a kids) \<Rightarrow> True | _ \<Rightarrow> False)"

text \<open>The test \<^verbatim>\<open>d.exists() and d.is_dir()\<close> of the list comprehension, and the
  comprehension itself: the first test that raises ends it, and with it the call of
  \<^verbatim>\<open>clean_temp_files\<close>, which has no handler.\<close>

definition available :: "node \<Rightarrow> path option \<Rightarrow> oserror + bool" where
  "available fs d =
     (case d of
        None \<Rightarrow> Inr True
      | Some p \<Rightarrow>
          (case exists_p fs p of
             Inl e \<Rightarrow> Inl e
           | Inr ex \<Rightarrow> Inr (ex \<and> dir_exists fs p)))"

fun select_dirs :: "node \<Rightarrow> path option list \<Rightarrow> oserror + path option list" where
  "select_dirs fs [] = Inr []"
| "select_dirs fs (d # ds) =
     (case available fs d of
        Inl e \<Rightarrow> Inl e
      | Inr ok \<Rightarrow>
          (case select_dirs fs ds of
             Inl e \<Rightarrow> Inl e
           | Inr rest \<Rightarrow> Inr (if ok then d # rest else rest)))"

text \<open>The body of \<^verbatim>\<open>for temp_dir in temp_dirs\<close>: \<^verbatim>\<open>_clean_directory_recursive(temp_dir)\<close> with
  the defaults \<open>max_depth = 3\<close> and \<open>current_depth = 0\<close>. A directory that an earlier round
  has removed makes \<^verbatim>\<open>iterdir\<close> raise inside the call.\<close>

definition clean_temp_dir :: "path \<Rightarrow> path option \<Rightarrow> node \<times> tool \<Rightarrow> node \<times> tool" where
  "clean_temp_dir cwd temp_dir s =
     (case s of
        (fs, st) \<Rightarrow>
          (case lookup fs (resolve cwd temp_dir) of
             None \<Rightarrow> (fs, access_error (resolve cwd temp_dir) OSError st)
           | Some n \<Rightarrow>
               (case clean_directory_recursive 3 0 (resolve cwd temp_dir) n st of
                  (n', st') \<Rightarrow> (put fs (resolve cwd temp_dir) n', st'))))"

text \<open>The returned dictionary; \<open>summary_size_freed\<close> is the byte count that the code reports
  divided by \<open>1024 * 1024\<close> under the key \<^verbatim>\<open>size_freed_mb\<close>.\<close>

record temp_summary =
  summary_files_deleted :: nat
  summary_size_freed :: nat
  directories_processed :: nat

text \<open>\<open>clean_temp_files_in\<close> is the function from the list comprehension on, with the
  elements of \<^verbatim>\<open>set(temp_dirs)\<close> in the order in which the set is iterated as its parameter
  \<open>order\<close>.\<close>

definition clean_temp_files_in ::
  "path option list \<Rightarrow> path \<Rightarrow> node \<Rightarrow> tool \<Rightarrow> oserror + (temp_summary \<times> node \<times> tool)" where
  "clean_temp_files_in order cwd fs st =
     (case select_dirs fs order of
        Inl e \<Rightarrow> Inl e
      | Inr temp_dirs \<Rightarrow>
          (let initial_stats = st
           in case fold (clean_temp_dir cwd) temp_dirs (fs, st) of
                (fs', st') \<Rightarrow>
                  Inr (\<lparr>summary_files_deleted =
                          temp_files_deleted st' - temp_files_deleted initial_stats,
                        summary_size_freed = temp_size_freed st' - temp_size_freed initial_stats,
                        directories_processed = length temp_dirs\<rparr>, fs', st')))"

text \<open>Python fixes no order in which a set is iterated: the order is the parameter
  \<open>arrange\<close>, a function that rearranges the list of the distinct elements of
  \<^verbatim>\<open>temp_dirs\<close>.\<close>

definition clean_temp_files ::
  "environ \<Rightarrow> (path option list \<Rightarrow> path option list) \<Rightarrow> path \<Rightarrow> node \<Rightarrow> tool
     \<Rightarrow> oserror + (temp_summary \<times> node \<times> tool)" where
  "clean_temp_files env arrange cwd fs st =
     clean_temp_files_in (arrange (remdups (temp_dirs_v1 env))) cwd fs st"

section \<open>Version 2: \<^verbatim>\<open>V2CleanupEngine._cleanup_temp_files\<close> (v2_core_engine.py)\<close>

datatype detail =
    Error_accessing_dir path
  | Processed_files nat nat
  | Space_freed_bytes nat

text \<open>The dataclass \<^verbatim>\<open>CleanupResult\<close>, whose fields the function accumulates in local variables
  of the same names (\<open>errors\<close> is returned as \<^verbatim>\<open>errors_encountered\<close>). The fields
  \<^verbatim>\<open>time_taken\<close> (wall-clock time) and \<^verbatim>\<open>success_rate\<close> (a float computed from the two file
  counters) are left out. The two summary strings of \<^verbatim>\<open>details\<close> are kept as the numbers
  they are formatted from.\<close>

record cleanup_result =
  operation_type :: string
  files_processed :: nat
  files_deleted :: nat
  space_freed :: nat
  errors :: nat
  details :: "detail list"

definition getsize :: "fattr \<Rightarrow> oserror + nat" where
  "getsize a = stat_size a"

definition os_remove :: "fattr \<Rightarrow> oserror + unit" where
  "os_remove a = unlink a"

text \<open>The body of the inner \<^verbatim>\<open>try\<close> for one name of \<^verbatim>\<open>files\<close>: \<open>None\<close> stands for a name
  for which \<^verbatim>\<open>os.path.exists\<close> is false (a dangling link, or an entry whose \<^verbatim>\<open>stat\<close> is
  refused). The result says whether the file is gone.\<close>

definition remove_file_body ::
  "fattr option \<Rightarrow> cleanup_result \<Rightarrow> oserror + (bool \<times> cleanup_result)" where
  "remove_file_body f acc =
     (case f of
        None \<Rightarrow> Inr (False, acc)
      | Some a \<Rightarrow>
          (case getsize a of
             Inl e \<Rightarrow> Inl e
           | Inr file_size \<Rightarrow>
               (case os_remove a of
                  Inl e \<Rightarrow> Inl e
                | Inr _ \<Rightarrow>
                    Inr (True, acc\<lparr>files_deleted := files_deleted acc + 1,
                                   space_freed := space_freed acc + file_size\<rparr>))))"

text \<open>One round of \<^verbatim>\<open>for file in files\<close>, for one name.\<close>

definition remove_file :: "fattr option \<Rightarrow> cleanup_result \<Rightarrow> bool \<times> cleanup_result" where
  "remove_file f acc =
     (let acc1 = acc\<lparr>files_processed := files_processed acc + 1\<rparr>
      in case remove_file_body f acc1 of
           Inr r \<Rightarrow> r
         | Inl e \<Rightarrow> (False, acc1\<lparr>errors := errors acc1 + 1\<rparr>))"

text \<open>\<^verbatim>\<open>for file in files\<close>: \<^verbatim>\<open>os.walk\<close> puts every entry that is not a directory into
  \<^verbatim>\<open>files\<close>; the directories of the listing are not touched by this loop.\<close>

fun remove_files :: "(string \<times> node) list \<Rightarrow> cleanup_result \<Rightarrow> (string \<times> node) list \<times> cleanup_result"
where
  "remove_files [] acc = ([], acc)"
| "remove_files ((name, File a) # rest) acc =
     (case remove_file (Some a) acc of
        (gone, acc1) \<Rightarrow>
          (case remove_files rest acc1 of
             (kids', acc2) \<Rightarrow> ((if gone then [] else [(name, File a)]) @ kids', acc2)))"
| "remove_files ((name, Dangling) # rest) acc =
     (case remove_file None acc of
        (gone, acc1) \<Rightarrow>
          (case remove_files rest acc1 of
             (kids', acc2) \<Rightarrow> ((name, Dangling) # kids', acc2)))"
| "remove_files ((name, Denied) # rest) acc =
     (case remove_file None acc of
        (gone, acc1) \<Rightarrow>
          (case remove_files rest acc1 of
             (kids', acc2) \<Rightarrow> ((name, Denied) # kids', acc2)))"
| "remove_files ((name, Dir a kids) # rest) acc =
     (case remove_files rest acc of
        (kids', acc1) \<Rightarrow> ((name, Dir a kids) # kids', acc1))"

lemma remove_files_size:
  "(kids1, acc1) = remove_files items acc \<Longrightarrow>
   size_list (size_prod (\<lambda>x. 0) size) kids1 \<le> size_list (size_prod (\<lambda>x. 0) size) items"
proof (induction items arbitrary: acc kids1 acc1)
  case Nil
  then show ?case by simp
next
  case (Cons x xs)
  obtain name n where x: "x = (name, n)" by (cases x)
  show ?case
  proof (cases n)
    case (File a)
    obtain gone acc2 where r: "remove_file (Some a) acc = (gone, acc2)" by fastforce
    obtain ks acc3 where k: "(ks, acc3) = remove_files xs acc2" by (metis surj_pair)
    from Cons.IH[OF k] Cons.prems x File r k[symmetric] show ?thesis by (auto split: if_splits)
  next
    case (Dir a kids)
    obtain ks acc3 where k: "(ks, acc3) = remove_files xs acc" by (metis surj_pair)
    from Cons.IH[OF k] Cons.prems x Dir k[symmetric] show ?thesis by auto
  next
    case Dangling
    obtain gone acc2 where r: "remove_file None acc = (gone, acc2)" by fastforce
    obtain ks acc3 where k: "(ks, acc3) = remove_files xs acc2" by (metis surj_pair)
    from Cons.IH[OF k] Cons.prems x Dangling r k[symmetric] show ?thesis by auto
  next
    case Denied
    obtain gone acc2 where r: "remove_file None acc = (gone, acc2)" by fastforce
    obtain ks acc3 where k: "(ks, acc3) = remove_files xs acc2" by (metis surj_pair)
    from Cons.IH[OF k] Cons.prems x Denied r k[symmetric] show ?thesis by auto
  qed
qed

lemma remove_files_size_fst:
  "size_list (size_prod (\<lambda>x. 0) size) (fst (remove_files items acc))
     \<le> size_list (size_prod (\<lambda>x. 0) size) items"
  by (rule remove_files_size[of _ "snd (remove_files items acc)"]) simp

text \<open>\<^verbatim>\<open>for root, dirs, files in os.walk(temp_dir)\<close> with the loop over \<^verbatim>\<open>files\<close> as its body:
  top-down, the files of a directory first, then each subdirectory of the listing in turn.
  A directory that cannot be listed yields nothing, and so does a path that is not a
  directory (\<^verbatim>\<open>os.walk\<close> ignores the error of \<^verbatim>\<open>scandir\<close>).\<close>

function walk :: "node \<Rightarrow> cleanup_result \<Rightarrow> node \<times> cleanup_result"
  and walk_dirs :: "(string \<times> node) list \<Rightarrow> cleanup_result \<Rightarrow> (string \<times> node) list \<times> cleanup_result"
where
  "walk (Dir a kids) acc =
     (if listable a
      then (case remove_files kids acc of
              (kids1, acc1) \<Rightarrow>
                (case walk_dirs kids1 acc1 of (kids2, acc2) \<Rightarrow> (Dir a kids2, acc2)))
      else (Dir a kids, acc))"
| "walk (File a) acc = (File a, acc)"
| "walk Dangling acc = (Dangling, acc)"
| "walk Denied acc = (Denied, acc)"
| "walk_dirs [] acc = ([], acc)"
| "walk_dirs ((name, Dir a kids) # rest) acc =
     (case walk (Dir a kids) acc of
        (n', acc1) \<Rightarrow>
          (case walk_dirs rest acc1 of (kids', acc2) \<Rightarrow> ((name, n') # kids', acc2)))"
| "walk_dirs ((name, File a) # rest) acc =
     (case walk_dirs rest acc of (kids', acc1) \<Rightarrow> ((name, File a) # kids', acc1))"
| "walk_dirs ((name, Dangling) # rest) acc =
     (case walk_dirs rest acc of (kids', acc1) \<Rightarrow> ((name, Dangling) # kids', acc1))"
| "walk_dirs ((name, Denied) # rest) acc =
     (case walk_dirs rest acc of (kids', acc1) \<Rightarrow> ((name, Denied) # kids', acc1))"
  by pat_completeness auto
termination
  by (relation "measure (\<lambda>x. case x of
          Inl (n, acc) \<Rightarrow> 2 * size n
        | Inr (items, acc) \<Rightarrow> 2 * size_list (size_prod (\<lambda>x. 0) size) items + 1)")
     (auto simp: case_prod_beta less_Suc_eq_le remove_files_size_fst)

text \<open>The body of \<^verbatim>\<open>for temp_dir in temp_dirs\<close>. An element of \<^verbatim>\<open>temp_dirs\<close> is \<open>Some\<close> path, or
  \<open>None\<close> for the empty string that \<^verbatim>\<open>os.environ.get(..., '')\<close> gives for an unset variable
  (\<^verbatim>\<open>os.path.exists('')\<close> is false). Nothing in the body of the outer \<^verbatim>\<open>try\<close> raises in this
  model, so its handler (\<open>errors += 1\<close> and an \<open>Error_accessing_dir\<close> detail) is never
  entered.\<close>

definition sweep_temp_dir ::
  "path option \<Rightarrow> node \<times> cleanup_result \<Rightarrow> node \<times> cleanup_result" where
  "sweep_temp_dir temp_dir s =
     (case temp_dir of
        None \<Rightarrow> s
      | Some p \<Rightarrow>
          (case s of
             (fs, acc) \<Rightarrow>
               if path_exists fs p
               then (case walk (the (lookup fs p)) acc of (n', acc') \<Rightarrow> (put fs p n', acc'))
               else s))"

definition temp_dirs_v2 :: "environ \<Rightarrow> path option list" where
  "temp_dirs_v2 env =
     [TEMP env, TMP env, Some [''C:'', ''Windows'', ''Temp''],
      Some (home env @ [''AppData'', ''Local'', ''Temp''])]"

definition cleanup_temp_files_in ::
  "path option list \<Rightarrow> node \<Rightarrow> node \<times> cleanup_result" where
  "cleanup_temp_files_in temp_dirs fs =
     (case fold sweep_temp_dir temp_dirs
             (fs, \<lparr>operation_type = ''Temporary Files'', files_processed = 0, files_deleted = 0,
                    space_freed = 0, errors = 0, details = []\<rparr>) of
        (fs', acc) \<Rightarrow>
          (fs', acc\<lparr>details := details acc @
                 [Processed_files (files_processed acc) (files_deleted acc),
                  Space_freed_bytes (space_freed acc)]\<rparr>))"

definition cleanup_temp_files :: "environ \<Rightarrow> node \<Rightarrow> node \<times> cleanup_result" where
  "cleanup_temp_files env fs = cleanup_temp_files_in (temp_dirs_v2 env) fs"

section \<open>Version 2: progress notifications of \<^verbatim>\<open>perform_one_click_cleanup\<close>\<close>

text \<open>The engine state that a run touches. A callback is modelled by whether it is set
  and by the list of calls it has received, oldest first. \<open>'s\<close> is the type of a
  \<^verbatim>\<open>SystemState\<close> snapshot.\<close>

record 's engine =
  progress_callback :: bool
  status_callback :: bool
  progress_calls :: "(int \<times> string) list"
  status_calls :: "string list"
  before_state :: "'s option"
  after_state :: "'s option"
  cleanup_results :: "cleanup_result list"

definition update_progress :: "int \<Rightarrow> string \<Rightarrow> 's engine \<Rightarrow> 's engine" where
  "update_progress percentage message e =
     (let e1 = (if progress_callback e
                then e\<lparr>progress_calls := progress_calls e @ [(percentage, message)]\<rparr> else e)
      in if status_callback e1 then e1\<lparr>status_calls := status_calls e1 @ [message]\<rparr> else e1)"

text \<open>\<^verbatim>\<open>capture_system_state\<close>: the snapshot that the probes of the system give, or the message of
  the exception they raise (which the function logs and raises again), is an input.\<close>

definition capture_system_state :: "string + 's \<Rightarrow> 's engine \<Rightarrow> 's engine \<times> (string + 's)" where
  "capture_system_state probe e = (update_progress 0 ''Analyzing system state...'' e, probe)"

text \<open>What the operating system answers during a run: the two snapshots and the results
  of the five operations that do not go through the file tree.\<close>

record 's answers =
  probe_before :: "string + 's"
  probe_after :: "string + 's"
  browser_result :: cleanup_result
  registry_result :: cleanup_result
  startup_result :: cleanup_result
  system_result :: cleanup_result
  memory_result :: cleanup_result

datatype 's outcome =
    Success 's 's "cleanup_result list"
  | Failure string "'s option" "cleanup_result list"

text \<open>\<^verbatim>\<open>perform_one_click_cleanup\<close>. The report generated between the notifications 95
  and 100 is a function of the two snapshots and is not part of the outcome here.\<close>

definition perform_one_click_cleanup ::
  "environ \<Rightarrow> 's answers \<Rightarrow> node \<Rightarrow> 's engine \<Rightarrow> 's outcome \<times> node \<times> 's engine" where
  "perform_one_click_cleanup env os fs e0 =
     (let e1 = update_progress 5 ''Capturing system state before cleanup...'' e0
      in case capture_system_state (probe_before os) e1 of
           (e2, Inl err) \<Rightarrow> (Failure err (before_state e2) (cleanup_results e2), fs, e2)
         | (e2, Inr before) \<Rightarrow>
             (let e3 = e2\<lparr>before_state := Some before, cleanup_results := []\<rparr>;
                  e4 = update_progress (15 + 1 * 10) ''Cleaning temporary files...'' e3;
                  (fs', temp_result) = cleanup_temp_files env fs;
                  e5 = e4\<lparr>cleanup_results := cleanup_results e4 @ [temp_result]\<rparr>;
                  e6 = update_progress (15 + 2 * 10) ''Cleaning browser caches...'' e5;
                  e7 = e6\<lparr>cleanup_results := cleanup_results e6 @ [browser_result os]\<rparr>;
                  e8 = update_progress (15 + 3 * 10) ''Optimizing registry...'' e7;
                  e9 = e8\<lparr>cleanup_results := cleanup_results e8 @ [registry_result os]\<rparr>;
                  e10 = update_progress (15 + 4 * 10) ''Optimizing startup programs...'' e9;
                  e11 = e10\<lparr>cleanup_results := cleanup_results e10 @ [startup_result os]\<rparr>;
                  e12 = update_progress (15 + 5 * 10) ''Cleaning system files...'' e11;
                  e13 = e12\<lparr>cleanup_results := cleanup_results e12 @ [system_result os]\<rparr>;
                  e14 = update_progress (15 + 6 * 10) ''Optimizing memory...'' e13;
                  e15 = e14\<lparr>cleanup_results := cleanup_results e14 @ [memory_result os]\<rparr>;
                  e16 = update_progress 85 ''Capturing system state after cleanup...'' e15
              in case capture_system_state (probe_after os) e16 of
                   (e17, Inl err) \<Rightarrow>
                     (Failure err (before_state e17) (cleanup_results e17), fs', e17)
                 | (e17, Inr after) \<Rightarrow>
                     (let e18 = e17\<lparr>after_state := Some after\<rparr>;
                          e19 = update_progress 95 ''Generating cleanup report...'' e18;
                          e20 = update_progress 100 ''Cleanup completed successfully!'' e19
                      in (Success before after (cleanup_results e20), fs', e20))))"

section \<open>Version 1: \<^verbatim>\<open>BrowserCacheCleaner\<close> (browser_cleaner.py)\<close>

record browser_config =
  process_names :: "string list"
  cache_paths :: "path list"
  temp_paths :: "path list option"

text \<open>\<^verbatim>\<open>self.browser_configs\<close>, with \<^verbatim>\<open>Path.home()\<close> as a parameter. The key
  \<^verbatim>\<open>profile_cache_pattern\<close> of Firefox is never read and is left out.\<close>

definition browser_configs :: "path \<Rightarrow> string \<Rightarrow> browser_config option" where
  "browser_configs h name =
     (if name = ''Chrome'' then Some
        \<lparr>process_names = [''chrome.exe'', ''GoogleUpdate.exe''],
         cache_paths =
           [h @ [''AppData'', ''Local'', ''Google'', ''Chrome'', ''User Data'', ''Default'', ''Cache''],
            h @ [''AppData'', ''Local'', ''Google'', ''Chrome'', ''User Data'', ''Default'', ''Code Cache''],
            h @ [''AppData'', ''Local'', ''Google'', ''Chrome'', ''User Data'', ''Default'', ''GPUCache''],
            h @ [''AppData'', ''Local'', ''Google'', ''Chrome'', ''User Data'', ''ShaderCache'']],
         temp_paths = Some
           [h @ [''AppData'', ''Local'', ''Google'', ''Chrome'', ''User Data'', ''Default'',
                 ''Service Worker'', ''CacheStorage'']]\<rparr>
      else if name = ''Edge'' then Some
        \<lparr>process_names = [''msedge.exe'', ''MicrosoftEdgeUpdate.exe''],
         cache_paths =
           [h @ [''AppData'', ''Local'', ''Microsoft'', ''Edge'', ''User Data'', ''Default'', ''Cache''],
            h @ [''AppData'', ''Local'', ''Microsoft'', ''Edge'', ''User Data'', ''Default'', ''Code Cache''],
            h @ [''AppData'', ''Local'', ''Microsoft'', ''Edge'', ''User Data'', ''Default'', ''GPUCache'']],
         temp_paths = Some
           [h @ [''AppData'', ''Local'', ''Microsoft'', ''Edge'', ''User Data'', ''Default'',
                 ''Service Worker'', ''CacheStorage'']]\<rparr>
      else if name = ''Firefox'' then Some
        \<lparr>process_names = [''firefox.exe''], cache_paths = [], temp_paths = None\<rparr>
      else if name = ''Opera'' then Some
        \<lparr>process_names = [''opera.exe''],
         cache_paths =
           [h @ [''AppData'', ''Local'', ''Opera Software'', ''Opera Stable'', ''Cache''],
            h @ [''AppData'', ''Local'', ''Opera Software'', ''Opera Stable'', ''GPUCache'']],
         temp_paths = None\<rparr>
      else if name = ''Brave'' then Some
        \<lparr>process_names = [''brave.exe''],
         cache_paths =
           [h @ [''AppData'', ''Local'', ''BraveSoftware'', ''Brave-Browser'', ''User Data'', ''Default'', ''Cache''],
            h @ [''AppData'', ''Local'', ''BraveSoftware'', ''Brave-Browser'', ''User Data'', ''Default'', ''Code Cache''],
            h @ [''AppData'', ''Local'', ''BraveSoftware'', ''Brave-Browser'', ''User Data'', ''Default'', ''GPUCache'']],
         temp_paths = None\<rparr>
      else None)"

text \<open>Exceptions that leave \<^verbatim>\<open>clean_browser_cache\<close>: no handler of the class catches them.\<close>

datatype exn = AttributeError | OS_error oserror

datatype cleaner_log =
    Warning_running string nat
  | Warning_could_not_remove path oserror
  | Info_cleaned path nat int
  | Error_cleaning path oserror

record cleaner =
  browsers_cleaned :: nat
  cache_size_freed :: int
  cleaner_logger :: "cleaner_log list"

text \<open>\<^verbatim>\<open>str.lower\<close> on the ASCII letters.\<close>

definition lower_char :: "char \<Rightarrow> char" where
  "lower_char c =
     (if 65 \<le> (of_char c :: nat) \<and> (of_char c :: nat) \<le> 90
      then char_of (of_char c + 32 :: nat) else c)"

definition lower :: "string \<Rightarrow> string" where
  "lower s = map lower_char s"

text \<open>The loop of \<^verbatim>\<open>is_browser_running\<close> over \<^verbatim>\<open>psutil.process_iter(['name'])\<close>. A process is
  its \<^verbatim>\<open>info['name']\<close> and its pid; the name is \<open>None\<close> when psutil was denied access to
  it, and \<^verbatim>\<open>None.lower()\<close> raises \<^verbatim>\<open>AttributeError\<close>, which the handler for
  \<^verbatim>\<open>(NoSuchProcess, AccessDenied)\<close> does not catch.\<close>

fun scan_processes ::
  "string \<Rightarrow> string list \<Rightarrow> (string option \<times> nat) list \<Rightarrow> cleaner \<Rightarrow> (exn + bool) \<times> cleaner"
where
  "scan_processes browser_name names [] c = (Inr False, c)"
| "scan_processes browser_name names ((None, pid) # procs) c = (Inl AttributeError, c)"
| "scan_processes browser_name names ((Some n, pid) # procs) c =
     (if lower n \<in> set (map lower names)
      then (Inr True, c\<lparr>cleaner_logger := cleaner_logger c @ [Warning_running browser_name pid]\<rparr>)
      else scan_processes browser_name names procs c)"

definition is_browser_running ::
  "path \<Rightarrow> (string option \<times> nat) list \<Rightarrow> string \<Rightarrow> cleaner \<Rightarrow> (exn + bool) \<times> cleaner" where
  "is_browser_running h procs browser_name c =
     (case browser_configs h browser_name of
        None \<Rightarrow> (Inr False, c)
      | Some config \<Rightarrow> scan_processes browser_name (process_names config) procs c)"

text \<open>\<^verbatim>\<open>get_directory_size\<close>. \<^verbatim>\<open>rglob('*')\<close> yields the entries of the directory, then,
  for each of its subdirectories in turn, what it yields for that subdirectory; a directory
  that cannot be listed yields nothing. The loop adds the size of each regular file whose
  \<^verbatim>\<open>stat\<close> succeeds. When \<^verbatim>\<open>item.is_file()\<close> raises, the loop ends and the outer handler
  passes: the function returns the sum reached so far. \<open>measure_entries\<close> is the loop over
  the entries of one directory and \<open>measure\<close> the whole loop; both take the sum so far and
  return the new sum and whether the loop has ended.\<close>

fun measure_entries :: "(string \<times> node) list \<Rightarrow> nat \<Rightarrow> nat \<times> bool" where
  "measure_entries [] total_size = (total_size, False)"
| "measure_entries ((name, File a) # rest) total_size =
     (case stat_size a of
        Inr s \<Rightarrow> measure_entries rest (total_size + s)
      | Inl e \<Rightarrow> measure_entries rest total_size)"
| "measure_entries ((name, Dir a kids) # rest) total_size = measure_entries rest total_size"
| "measure_entries ((name, Dangling) # rest) total_size = measure_entries rest total_size"
| "measure_entries ((name, Denied) # rest) total_size = (total_size, True)"

fun measure :: "node \<Rightarrow> nat \<Rightarrow> nat \<times> bool"
  and measure_subdirs :: "(string \<times> node) list \<Rightarrow> nat \<Rightarrow> nat \<times> bool"
where
  "measure (Dir a kids) total_size =
     (if listable a
      then (case measure_entries kids total_size of
              (t, True) \<Rightarrow> (t, True)
            | (t, False) \<Rightarrow> measure_subdirs kids t)
      else (total_size, False))"
| "measure (File a) total_size = (total_size, False)"
| "measure Dangling total_size = (total_size, False)"
| "measure Denied total_size = (total_size, False)"
| "measure_subdirs [] total_size = (total_size, False)"
| "measure_subdirs ((name, n) # rest) total_size =
     (case measure n total_size of
        (t, True) \<Rightarrow> (t, True)
      | (t, False) \<Rightarrow> measure_subdirs rest t)"

definition get_directory_size :: "node \<Rightarrow> nat" where
  "get_directory_size n = fst (measure n 0)"

text \<open>\<^verbatim>\<open>shutil.rmtree(item, ignore_errors=True)\<close>: removes what it can and reports nothing.
  The result is what is left of the directory.\<close>

fun rmtree :: "node \<Rightarrow> node option" and rmtree_list :: "(string \<times> node) list \<Rightarrow> (string \<times> node) list"
where
  "rmtree (Dir a kids) =
     (let kids' = (if listable a then rmtree_list kids else kids)
      in if kids' = [] \<and> rmdir_ok a then None else Some (Dir a kids'))"
| "rmtree (File a) = Some (File a)"
| "rmtree Dangling = Some Dangling"
| "rmtree Denied = Some Denied"
| "rmtree_list [] = []"
| "rmtree_list ((name, Dir a kids) # rest) = keep name (rmtree (Dir a kids)) @ rmtree_list rest"
| "rmtree_list ((name, File a) # rest) =
     (if unlink_ok a then [] else [(name, File a)]) @ rmtree_list rest"
| "rmtree_list ((name, Dangling) # rest) = rmtree_list rest"
| "rmtree_list ((name, Denied) # rest) = (name, Denied) # rmtree_list rest"

text \<open>\<^verbatim>\<open>for item in cache_path.iterdir()\<close> of \<^verbatim>\<open>safe_remove_cache_directory\<close>, with the
  counter \<^verbatim>\<open>files_removed\<close>. The handler inside the loop catches the error of
  \<^verbatim>\<open>item.unlink()\<close> and that of \<^verbatim>\<open>item.is_file()\<close>.\<close>

fun remove_items ::
  "path \<Rightarrow> (string \<times> node) list \<Rightarrow> nat \<Rightarrow> cleaner \<Rightarrow> (string \<times> node) list \<times> nat \<times> cleaner"
where
  "remove_items cache_path [] files_removed c = ([], files_removed, c)"
| "remove_items cache_path ((name, File a) # rest) files_removed c =
     (case unlink a of
        Inr _ \<Rightarrow> remove_items cache_path rest (files_removed + 1) c
      | Inl e \<Rightarrow>
          (case remove_items cache_path rest files_removed
                  (c\<lparr>cleaner_logger := cleaner_logger c @
                        [Warning_could_not_remove (cache_path @ [name]) e]\<rparr>) of
             (kids', r) \<Rightarrow> ((name, File a) # kids', r)))"
| "remove_items cache_path ((name, Dir a kids) # rest) files_removed c =
     (case remove_items cache_path rest (files_removed + 1) c of
        (kids', r) \<Rightarrow> (keep name (rmtree (Dir a kids)) @ kids', r))"
| "remove_items cache_path ((name, Dangling) # rest) files_removed c =
     (case remove_items cache_path rest files_removed c of
        (kids', r) \<Rightarrow> ((name, Dangling) # kids', r))"
| "remove_items cache_path ((name, Denied) # rest) files_removed c =
     (case remove_items cache_path rest files_removed
             (c\<lparr>cleaner_logger := cleaner_logger c @
                   [Warning_could_not_remove (cache_path @ [name]) PermissionError]\<rparr>) of
        (kids', r) \<Rightarrow> ((name, Denied) # kids', r))"

text \<open>\<^verbatim>\<open>safe_remove_cache_directory(cache_path)\<close>: the returned pair, the file tree and the
  state afterwards, or the error that \<^verbatim>\<open>cache_path.exists()\<close> raises before the \<^verbatim>\<open>try\<close>.\<close>

definition safe_remove_cache_directory ::
  "path \<Rightarrow> node \<Rightarrow> cleaner \<Rightarrow> oserror + ((bool \<times> int) \<times> node \<times> cleaner)" where
  "safe_remove_cache_directory cache_path fs c =
     (case exists_p fs cache_path of
        Inl e \<Rightarrow> Inl e
      | Inr False \<Rightarrow> Inr ((False, 0), fs, c)
      | Inr True \<Rightarrow>
          (let n = the (lookup fs cache_path);
               initial_size = get_directory_size n
           in case n of
                Dir a kids \<Rightarrow>
                  if listable a
                  then (case remove_items cache_path kids 0 c of
                          (kids', files_removed, c1) \<Rightarrow>
                            (let final_size = get_directory_size (Dir a kids');
                                 size_freed = int initial_size - int final_size
                             in Inr ((True, size_freed), put fs cache_path (Dir a kids'),
                                     c1\<lparr>cleaner_logger := cleaner_logger c1 @
                                           [Info_cleaned cache_path files_removed size_freed]\<rparr>)))
                  else Inr ((False, 0), fs,
                            c\<lparr>cleaner_logger := cleaner_logger c @
                                 [Error_cleaning cache_path PermissionError]\<rparr>)
              | _ \<Rightarrow> Inr ((False, 0), fs,
                          c\<lparr>cleaner_logger := cleaner_logger c @
                               [Error_cleaning cache_path NotADirectoryError]\<rparr>)))"

text \<open>\<^verbatim>\<open>get_firefox_profiles\<close>: no error of \<^verbatim>\<open>firefox_base.exists()\<close>, of \<^verbatim>\<open>iterdir\<close>, of
  \<^verbatim>\<open>profile_dir.is_dir()\<close> or of \<^verbatim>\<open>cache_dir.exists()\<close> is caught. \<open>profile_caches\<close> is the
  loop over the entries of the profiles directory.\<close>

fun profile_caches :: "node \<Rightarrow> path \<Rightarrow> (string \<times> node) list \<Rightarrow> oserror + path list" where
  "profile_caches fs firefox_base [] = Inr []"
| "profile_caches fs firefox_base ((name, Dir a kids) # rest) =
     (case exists_p fs (firefox_base @ [name, ''cache2'']) of
        Inl e \<Rightarrow> Inl e
      | Inr ex \<Rightarrow>
          (case profile_caches fs firefox_base rest of
             Inl e \<Rightarrow> Inl e
           | Inr profiles \<Rightarrow>
               Inr (if ex then (firefox_base @ [name, ''cache2'']) # profiles else profiles)))"
| "profile_caches fs firefox_base ((name, Denied) # rest) = Inl PermissionError"
| "profile_caches fs firefox_base ((name, n) # rest) = profile_caches fs firefox_base rest"

definition get_firefox_profiles :: "path \<Rightarrow> node \<Rightarrow> oserror + path list" where
  "get_firefox_profiles h fs =
     (let firefox_base = h @ [''AppData'', ''Local'', ''Mozilla'', ''Firefox'', ''Profiles'']
      in case exists_p fs firefox_base of
           Inl e \<Rightarrow> Inl e
         | Inr False \<Rightarrow> Inr []
         | Inr True \<Rightarrow>
             (case the (lookup fs firefox_base) of
                Dir a kids \<Rightarrow>
                  if listable a then profile_caches fs firefox_base kids
                  else Inl PermissionError
              | _ \<Rightarrow> Inl NotADirectoryError))"

text \<open>The dictionary returned by \<^verbatim>\<open>clean_browser_cache\<close>; a key that a return statement
  leaves out is \<open>None\<close>. The float \<^verbatim>\<open>size_freed_mb\<close> is left out, and \<open>errors_list\<close> (the key
  \<^verbatim>\<open>errors\<close>) holds the paths \<open>p\<close> of the messages \<^verbatim>\<open>Failed to clean p\<close>.\<close>

record browser_report =
  success :: bool
  error :: "string option"
  browser :: "string option"
  paths_cleaned :: "path list option"
  size_freed :: "int option"
  errors_list :: "path list option"

text \<open>The rounds of the two \<^verbatim>\<open>for\<close> loops over cache directories; \<open>firefox\<close> tells which
  of the two it is (only the other one tests \<^verbatim>\<open>cache_path.exists()\<close> before it records a
  failure). The accumulators are \<^verbatim>\<open>total_size_freed\<close>, \<^verbatim>\<open>paths_cleaned\<close> and \<^verbatim>\<open>errors\<close>.\<close>

fun clean_paths ::
  "bool \<Rightarrow> path list \<Rightarrow> int \<times> path list \<times> path list \<Rightarrow> node \<Rightarrow> cleaner
     \<Rightarrow> oserror + ((int \<times> path list \<times> path list) \<times> node \<times> cleaner)"
where
  "clean_paths firefox [] acc fs c = Inr (acc, fs, c)"
| "clean_paths firefox (cache_path # rest) (total_size_freed, cleaned, errs) fs c =
     (case safe_remove_cache_directory cache_path fs c of
        Inl e \<Rightarrow> Inl e
      | Inr ((ok, freed), fs1, c1) \<Rightarrow>
          if ok
          then clean_paths firefox rest
                 (total_size_freed + freed, cleaned @ [cache_path], errs) fs1 c1
          else if firefox
          then clean_paths firefox rest (total_size_freed, cleaned, errs @ [cache_path]) fs1 c1
          else (case exists_p fs1 cache_path of
                  Inl e \<Rightarrow> Inl e
                | Inr True \<Rightarrow>
                    clean_paths firefox rest (total_size_freed, cleaned, errs @ [cache_path])
                      fs1 c1
                | Inr False \<Rightarrow>
                    clean_paths firefox rest (total_size_freed, cleaned, errs) fs1 c1))"

definition clean_browser_cache ::
  "path \<Rightarrow> (string option \<times> nat) list \<Rightarrow> string \<Rightarrow> bool \<Rightarrow> node \<Rightarrow> cleaner
     \<Rightarrow> exn + (browser_report \<times> node \<times> cleaner)" where
  "clean_browser_cache h procs browser_name force fs c =
     (case browser_configs h browser_name of
        None \<Rightarrow>
          Inr (\<lparr>success = False, error = Some (''Unsupported browser: '' @ browser_name),
                browser = None, paths_cleaned = None, size_freed = None, errors_list = None\<rparr>,
               fs, c)
      | Some config \<Rightarrow>
          (case (if force then (Inr False, c) else is_browser_running h procs browser_name c) of
             (Inl e, c1) \<Rightarrow> Inl e
           | (Inr True, c1) \<Rightarrow>
               Inr (\<lparr>success = False,
                     error = Some (browser_name @
                       '' is currently running. Close it first or use force=True''),
                     browser = None, paths_cleaned = None, size_freed = Some 0,
                     errors_list = None\<rparr>, fs, c1)
           | (Inr False, c1) \<Rightarrow>
               (case (if browser_name = ''Firefox''
                      then get_firefox_profiles h fs
                      else Inr (cache_paths config @
                                (case temp_paths config of None \<Rightarrow> [] | Some ps \<Rightarrow> ps))) of
                  Inl e \<Rightarrow> Inl (OS_error e)
                | Inr paths \<Rightarrow>
                    (case clean_paths (browser_name = ''Firefox'') paths (0, [], []) fs c1 of
                       Inl e \<Rightarrow> Inl (OS_error e)
                     | Inr ((total_size_freed, cleaned, errs), fs', c2) \<Rightarrow>
                         Inr (\<lparr>success = cleaned \<noteq> [], error = None,
                               browser = Some browser_name, paths_cleaned = Some cleaned,
                               size_freed = Some total_size_freed, errors_list = Some errs\<rparr>,
                              fs',
                              if cleaned \<noteq> []
                              then c2\<lparr>browsers_cleaned := browsers_cleaned c2 + 1,
                                      cache_size_freed := cache_size_freed c2 + total_size_freed\<rparr>
                              else c2)))))"

section \<open>Example file trees\<close>

definition plain_file :: "nat \<Rightarrow> node" where
  "plain_file n = File \<lparr>st_size = n, in_use = False, stat_ok = True, unlink_ok = True\<rparr>"

definition plain_dir :: "(string \<times> node) list \<Rightarrow> node" where
  "plain_dir kids = Dir \<lparr>listable = True, rmdir_ok = True\<rparr> kids"

text \<open>\<open>under p n\<close> is the tree in which \<open>n\<close> is found at path \<open>p\<close> and nothing else exists.\<close>

fun under :: "path \<Rightarrow> node \<Rightarrow> node" where
  "under [] n = n"
| "under (x # xs) n = plain_dir [(x, under xs n)]"

text \<open>The Chrome cache of user \<^verbatim>\<open>nick\<close>: the directory \<^verbatim>\<open>Cache\<close> holds the directory
  \<^verbatim>\<open>Cache_Data\<close> with two files of 100 bytes each.\<close>

definition chrome_cache :: path where
  "chrome_cache = [''C:'', ''Users'', ''nick'', ''AppData'', ''Local'', ''Google'', ''Chrome'',
                    ''User Data'', ''Default'', ''Cache'']"

definition chrome_fs :: node where
  "chrome_fs =
     under chrome_cache
       (plain_dir [(''Cache_Data'', plain_dir [(''f_000001'', plain_file 100),
                                                (''f_000002'', plain_file 100)])])"


text \<open>An engine with a progress callback set and no notification received yet, and a
  system on which both snapshots succeed.\<close>

definition fresh_engine :: "unit engine" where
  "fresh_engine = \<lparr>progress_callback = True, status_callback = False, progress_calls = [],
     status_calls = [], before_state = None, after_state = None, cleanup_results = []\<rparr>"

definition no_results :: cleanup_result where
  "no_results = \<lparr>operation_type = [], files_processed = 0, files_deleted = 0,
                    space_freed = 0, errors = 0, details = []\<rparr>"

definition quiet_answers :: "unit answers" where
  "quiet_answers = \<lparr>probe_before = Inr (), probe_after = Inr (), browser_result = no_results,
     registry_result = no_results, startup_result = no_results, system_result = no_results,
     memory_result = no_results\<rparr>"

section \<open>Notions used in the statements\<close>





text \<open>A root path that does not exist (nothing is there, or a link whose target is gone)
  or is not a directory (a regular file is there). A path whose \<^verbatim>\<open>stat\<close> is refused is
  neither available nor unavailable: the code cannot tell.\<close>

definition unavailable :: "node \<Rightarrow> path \<Rightarrow> bool" where
  "unavailable fs p =
     (case lookup fs p of
        None \<Rightarrow> True
      | Some (File a) \<Rightarrow> True
      | Some Dangling \<Rightarrow> True
      | Some (Dir a kids) \<Rightarrow> False
      | Some Denied \<Rightarrow> False)"









section \<open>Properties of the sweep of version 1\<close>

subsection \<open>The loop over a listing\<close>

lemma clean_items_append:
  "clean_items md cd d (xs @ ys) st =
     (case clean_items md cd d xs st of
        (k1, st1, None) \<Rightarrow>
          (case clean_items md cd d ys st1 of (k2, st2, x) \<Rightarrow> (k1 @ k2, st2, x))
      | (k1, st1, Some e) \<Rightarrow> (k1 @ ys, st1, Some e))"
proof (induction xs arbitrary: st)
  case Nil
  show ?case by (simp split: prod.splits)
next
  case (Cons x xs)
  obtain name n where x: "x = (name, n)" by (cases x)
  show ?case
  proof (cases n)
    case (File a)
    with x Cons show ?thesis by (simp split: prod.splits option.splits)
  next
    case (Dir a kids)
    with x Cons show ?thesis by (simp split: prod.splits option.splits)
  next
    case Dangling
    with x Cons show ?thesis by (simp split: prod.splits option.splits)
  next
    case Denied
    with x show ?thesis by simp
  qed
qed

lemma safe_delete_file_in_use:
  "is_file_in_use a \<Longrightarrow>
   safe_delete_file p (Some a) st = (False, Some a, st\<lparr>logger := logger st @ [Warning_in_use p]\<rparr>)"
  by (simp add: safe_delete_file_def safe_delete_file_body_def)



subsection \<open>Locked files\<close>

text \<open>Counterexample to claim C2 as stated. A sweep of a directory holding one file that
  \<^verbatim>\<open>is_file_in_use\<close> reports as in use leaves \<^verbatim>\<open>errors_encountered\<close> at 0: the file is
  skipped with a warning and the errors counter is not incremented.\<close>

theorem locked_file_not_counted_as_error:
  "is_file_in_use \<lparr>st_size = 10, in_use = True, stat_ok = True, unlink_ok = True\<rparr>
   \<and> errors_encountered new_tool = 0
   \<and> clean_directory_recursive 3 0 [''Temp'']
        (plain_dir [(''a.log'', File \<lparr>st_size = 10, in_use = True, stat_ok = True,
                                        unlink_ok = True\<rparr>)]) new_tool
      = (plain_dir [(''a.log'', File \<lparr>st_size = 10, in_use = True, stat_ok = True,
                                         unlink_ok = True\<rparr>)],
         \<lparr>temp_files_deleted = 0, temp_size_freed = 0, browser_caches_cleared = 0,
            errors_encountered = 0, logger = [Warning_in_use [''Temp'', ''a.log'']]\<rparr>)"
  by (simp add: plain_dir_def new_tool_def safe_delete_file_def safe_delete_file_body_def
      is_file_in_use_def rename_self_def keep_def)

text \<open>Claim C2, amended. For every file that \<^verbatim>\<open>is_file_in_use\<close> reports as in use,
  \<^verbatim>\<open>safe_delete_file\<close> returns \<open>False\<close> and leaves the file in place; the loop of the sweep
  keeps the file in the directory and goes on with the entries after it from a state in
  which no counter has changed (neither the deleted-files counter nor the errors counter):
  only a warning is logged. (A loop that an error has ended before it reaches the file
  leaves the file and the entries after it as they are.)\<close>

theorem locked_file_is_skipped:
  assumes "is_file_in_use a"
  shows "safe_delete_file (d @ [name]) (Some a) st =
           (False, Some a, st\<lparr>logger := logger st @ [Warning_in_use (d @ [name])]\<rparr>)
       \<and> clean_items md cd d (pre @ (name, File a) # post) st =
           (case clean_items md cd d pre st of
              (k1, st1, None) \<Rightarrow>
                (case clean_items md cd d post
                        (st1\<lparr>logger := logger st1 @ [Warning_in_use (d @ [name])]\<rparr>) of
                   (k2, st2, x) \<Rightarrow> (k1 @ (name, File a) # k2, st2, x))
            | (k1, st1, Some e) \<Rightarrow> (k1 @ (name, File a) # post, st1, Some e))"
  using safe_delete_file_in_use[OF assms]
  by (simp add: clean_items_append keep_def split: prod.splits option.splits)

text \<open>Witness for C2: a file in use, followed in the listing by a file of 7 bytes that is
  deleted.\<close>

theorem locked_file_is_skipped_witness:
  "is_file_in_use \<lparr>st_size = 10, in_use = True, stat_ok = True, unlink_ok = True\<rparr>
   \<and> clean_items 3 0 [''Temp'']
        [(''a.log'', File \<lparr>st_size = 10, in_use = True, stat_ok = True, unlink_ok = True\<rparr>),
         (''b.tmp'', plain_file 7)] new_tool
      = ([(''a.log'', File \<lparr>st_size = 10, in_use = True, stat_ok = True, unlink_ok = True\<rparr>)],
         \<lparr>temp_files_deleted = 1, temp_size_freed = 7, browser_caches_cleared = 0,
            errors_encountered = 0,
            logger = [Warning_in_use [''Temp'', ''a.log''],
                      Info_deleted [''Temp'', ''b.tmp''] 7]\<rparr>, None)"
proof -
  have locked: "is_file_in_use \<lparr>st_size = 10, in_use = True, stat_ok = True, unlink_ok = True\<rparr>"
    by (simp add: is_file_in_use_def rename_self_def)
  have deletable: "safe_delete_file_body p (Some \<lparr>st_size = 7, in_use = False, stat_ok = True,
      unlink_ok = True\<rparr>) st = Inr (True, None,
        st\<lparr>temp_files_deleted := temp_files_deleted st + 1,
           temp_size_freed := temp_size_freed st + 7,
           logger := logger st @ [Info_deleted p 7]\<rparr>)" for p st
    by (simp add: safe_delete_file_body_def is_file_in_use_def rename_self_def stat_size_def
        unlink_def)
  show ?thesis
    using locked
      locked_file_is_skipped[OF locked, of "[''Temp'']" "''a.log''" new_tool 3 0 "[]"
        "[(''b.tmp'', plain_file 7)]"]
    by (simp add: plain_file_def new_tool_def safe_delete_file_def deletable keep_def)
qed

subsection \<open>The depth limit\<close>

lemma is_dir_simps [simp]:
  "is_dir (Dir a kids)" "\<not> is_dir (File f)" "\<not> is_dir Dangling" "\<not> is_dir Denied"
  by (simp_all add: is_dir_def)

lemma depth_limit_items:
  "filter (\<lambda>e. is_dir (snd e)) (fst (clean_items md md d kids st))
     = filter (\<lambda>e. is_dir (snd e)) kids
   \<and> snd (clean_items md md d kids st)
     = snd (clean_items md md d (filter (\<lambda>e. \<not> is_dir (snd e)) kids) st)"
proof (induction kids arbitrary: st)
  case Nil
  show ?case by simp
next
  case (Cons x xs)
  obtain name n where x: "x = (name, n)" by (cases x)
  show ?case
  proof (cases n)
    case (File a)
    with x Cons show ?thesis by (simp add: keep_def case_prod_beta split: option.splits)
  next
    case (Dir a kids)
    with x Cons show ?thesis by (simp add: case_prod_beta)
  next
    case Dangling
    with x Cons show ?thesis by (simp add: case_prod_beta)
  next
    case Denied
    with x show ?thesis by simp
  qed
qed

text \<open>Claim C7. With \<open>max_depth = 0\<close> the sweep of a root directory returns every
  subdirectory of the root exactly as it was, with all the files in it, and ends in the
  state that the sweep of the root without its subdirectories ends in: only the direct
  children of the root are processed. The same holds for the entries met at any depth equal
  to \<open>max_depth\<close>: the loop does not descend into the directories among them.\<close>

theorem depth_limit_leaves_subdirectories:
  "filter (\<lambda>e. is_dir (snd e))
      (case fst (clean_directory_recursive 0 0 root (Dir a kids) st) of
         Dir a' kids' \<Rightarrow> kids' | _ \<Rightarrow> [])
     = filter (\<lambda>e. is_dir (snd e)) kids
   \<and> snd (clean_directory_recursive 0 0 root (Dir a kids) st)
     = snd (clean_directory_recursive 0 0 root
              (Dir a (filter (\<lambda>e. \<not> is_dir (snd e)) kids)) st)
   \<and> filter (\<lambda>e. is_dir (snd e)) (fst (clean_items max_depth max_depth d kids st))
     = filter (\<lambda>e. is_dir (snd e)) kids
   \<and> snd (clean_items max_depth max_depth d kids st)
     = snd (clean_items max_depth max_depth d (filter (\<lambda>e. \<not> is_dir (snd e)) kids) st)"
proof -
  obtain k1 s1 x1 where r1: "clean_items 0 0 root kids st = (k1, s1, x1)"
    by (metis prod_cases3)
  obtain k2 s2 x2 where
    r2: "clean_items 0 0 root (filter (\<lambda>e. \<not> is_dir (snd e)) kids) st = (k2, s2, x2)"
    by (metis prod_cases3)
  from depth_limit_items[of 0 root kids st] r1 r2
  have eq: "filter (\<lambda>e. is_dir (snd e)) k1 = filter (\<lambda>e. is_dir (snd e)) kids"
    "s1 = s2" "x1 = x2" by simp_all
  have root: "filter (\<lambda>e. is_dir (snd e))
      (case fst (clean_directory_recursive 0 0 root (Dir a kids) st) of
         Dir a' kids' \<Rightarrow> kids' | _ \<Rightarrow> [])
     = filter (\<lambda>e. is_dir (snd e)) kids"
    using r1 eq(1) by (simp split: option.splits)
  have root_state: "snd (clean_directory_recursive 0 0 root (Dir a kids) st)
     = snd (clean_directory_recursive 0 0 root
              (Dir a (filter (\<lambda>e. \<not> is_dir (snd e)) kids)) st)"
    using r1 r2 eq(2,3) by (simp split: option.splits)
  from root root_state depth_limit_items[of max_depth d kids st] show ?thesis by simp
qed

subsection \<open>Failures of single entries\<close>





subsection \<open>Directories are removed after their contents\<close>

















section \<open>Properties of the temporary-file cleanup of version 2\<close>

subsection \<open>Deleted files are processed files\<close>

lemma remove_file_inv:
  "remove_file f acc = (gone, acc') \<Longrightarrow> files_deleted acc \<le> files_processed acc \<Longrightarrow>
     files_deleted acc' \<le> files_processed acc'"
  by (auto simp: remove_file_def remove_file_body_def Let_def split: option.splits sum.splits)

lemma remove_files_inv:
  "remove_files items acc = (items', acc') \<Longrightarrow> files_deleted acc \<le> files_processed acc \<Longrightarrow>
     files_deleted acc' \<le> files_processed acc'"
proof (induction items acc arbitrary: items' acc' rule: remove_files.induct)
  case (1 acc)
  then show ?case by simp
next
  case (2 name a rest acc)
  then show ?case by (auto split: prod.splits dest: remove_file_inv)
next
  case (3 name rest acc)
  then show ?case by (auto split: prod.splits dest: remove_file_inv)
next
  case (4 name rest acc)
  then show ?case by (auto split: prod.splits dest: remove_file_inv)
next
  case (5 name a kids rest acc)
  then show ?case by (auto split: prod.splits)
qed

lemma walk_inv:
  "walk n acc = (n', acc') \<Longrightarrow> files_deleted acc \<le> files_processed acc \<Longrightarrow>
     files_deleted acc' \<le> files_processed acc'"
  "walk_dirs items acc = (items', acc') \<Longrightarrow> files_deleted acc \<le> files_processed acc \<Longrightarrow>
     files_deleted acc' \<le> files_processed acc'"
proof (induction n acc and items acc arbitrary: n' acc' and items' acc'
    rule: walk_walk_dirs.induct)
  case (1 a kids acc)
  show ?case
  proof (cases "listable a")
    case True
    obtain k1 acc1 where r1: "remove_files kids acc = (k1, acc1)" by fastforce
    obtain k2 acc2 where r2: "walk_dirs k1 acc1 = (k2, acc2)" by fastforce
    from "1.prems" True r1 r2 have "acc' = acc2" by simp
    moreover have "files_deleted acc1 \<le> files_processed acc1"
      using remove_files_inv[OF r1 "1.prems"(2)] .
    ultimately show ?thesis using "1.IH"[OF True r1[symmetric] r2] by simp
  next
    case False
    with "1.prems" show ?thesis by simp
  qed
next
  case (6 name a kids rest acc)
  obtain n1 acc1 where r1: "walk (Dir a kids) acc = (n1, acc1)" by fastforce
  obtain k2 acc2 where r2: "walk_dirs rest acc1 = (k2, acc2)" by fastforce
  from "6.prems" r1 r2 have "acc' = acc2" by simp
  with "6.IH"(2)[OF r1[symmetric] r2] "6.IH"(1)[OF r1 "6.prems"(2)] show ?case by simp
qed (auto split: prod.splits)

lemma sweep_temp_dir_inv:
  "sweep_temp_dir d (fs, acc) = (fs', acc') \<Longrightarrow> files_deleted acc \<le> files_processed acc \<Longrightarrow>
     files_deleted acc' \<le> files_processed acc'"
  by (auto simp: sweep_temp_dir_def split: option.splits if_splits prod.splits dest: walk_inv(1))

lemma fold_sweep_inv:
  "fold sweep_temp_dir ds (fs, acc) = (fs', acc') \<Longrightarrow> files_deleted acc \<le> files_processed acc \<Longrightarrow>
     files_deleted acc' \<le> files_processed acc'"
proof (induction ds arbitrary: fs acc)
  case Nil
  then show ?case by simp
next
  case (Cons d ds)
  obtain fs1 acc1 where s: "sweep_temp_dir d (fs, acc) = (fs1, acc1)" by fastforce
  with Cons.prems have "fold sweep_temp_dir ds (fs1, acc1) = (fs', acc')" by simp
  from Cons.IH[OF this sweep_temp_dir_inv[OF s Cons.prems(2)]] show ?case .
qed

lemma cleanup_temp_files_in_inv:
  "files_deleted (snd (cleanup_temp_files_in temp_dirs fs))
     \<le> files_processed (snd (cleanup_temp_files_in temp_dirs fs))"
proof -
  let ?acc0 = "\<lparr>operation_type = ''Temporary Files'', files_processed = 0, files_deleted = 0,
                    space_freed = 0, errors = 0, details = []\<rparr>"
  obtain fs' acc' where f: "fold sweep_temp_dir temp_dirs (fs, ?acc0) = (fs', acc')" by fastforce
  from fold_sweep_inv[OF f] have "files_deleted acc' \<le> files_processed acc'" by simp
  with f show ?thesis by (simp add: cleanup_temp_files_in_def)
qed

text \<open>Claim C3. Whatever the file tree and the environment, and so whichever deletions
  succeed and fail, the \<^verbatim>\<open>CleanupResult\<close> of \<^verbatim>\<open>_cleanup_temp_files\<close> has
  \<open>files_deleted \<le> files_processed\<close>.\<close>

theorem deleted_at_most_processed:
  "files_deleted (snd (cleanup_temp_files env fs)) \<le> files_processed (snd (cleanup_temp_files env fs))"
  unfolding cleanup_temp_files_def by (rule cleanup_temp_files_in_inv)

subsection \<open>Roots that are not there\<close>











lemma unavailable_Dir:
  "unavailable (Dir a items) (x # xs) = unavailable (Dir b items) (x # xs)"
  by (simp add: unavailable_def)







text \<open>A remark on version 1: \<^verbatim>\<open>clean_temp_files\<close> hands a path to
  \<^verbatim>\<open>_clean_directory_recursive\<close> only if it was a directory when the list of roots was
  built. Called on a path that is not a directory, the function catches the error of
  \<^verbatim>\<open>iterdir\<close>, counts one error and logs it, and changes nothing else.\<close>

lemma clean_directory_recursive_not_a_directory:
  "\<not> is_dir n \<Longrightarrow> current_depth \<le> max_depth \<Longrightarrow>
     \<exists>e. clean_directory_recursive max_depth current_depth directory n st
           = (n, access_error directory e st)"
  by (cases n) auto

text \<open>A second remark on version 1: a root whose \<^verbatim>\<open>stat\<close> is refused makes the test
  \<^verbatim>\<open>d.exists()\<close> of the list comprehension raise, and \<^verbatim>\<open>clean_temp_files\<close> has no handler
  for it. Version 2 skips such a root like one that does not exist.\<close>

lemma refused_root:
  "lookup fs p = Some Denied \<Longrightarrow>
     clean_temp_files_in (Some p # order) cwd fs st = Inl PermissionError
     \<and> sweep_temp_dir (Some p) (fs, acc) = (fs, acc)"
  by (simp add: clean_temp_files_in_def available_def exists_p_def sweep_temp_dir_def
      path_exists_def)




subsection \<open>The same directory listed twice\<close>

text \<open>Claim C5, evaluated where the code departs from it. \<^verbatim>\<open>TEMP\<close> and \<^verbatim>\<open>TMP\<close> name the
  same directory, which holds one file that cannot be deleted. \<^verbatim>\<open>_cleanup_temp_files\<close> of
  version 2 walks the directory twice and reports 2 processed files and 2 errors, where
  one sweep of it (\<^verbatim>\<open>TMP\<close> unset) reports 1 of each. \<^verbatim>\<open>clean_temp_files\<close> of version 1
  removes the duplicate first (it compares the paths as they are written): it processes 1
  directory and counts 1 error (the set is iterated in the order of the list, and the
  current directory is the root of the tree).\<close>

theorem duplicate_root_is_swept_twice_in_v2:
  "cleanup_temp_files \<lparr>TEMP = Some [''T''], TMP = Some [''T''], home = [''C:'', ''Users'', ''nick'']\<rparr>
       (plain_dir [(''T'', plain_dir [(''held.tmp'',
          File \<lparr>st_size = 10, in_use = False, stat_ok = True, unlink_ok = False\<rparr>)])])
     = (plain_dir [(''T'', plain_dir [(''held.tmp'',
          File \<lparr>st_size = 10, in_use = False, stat_ok = True, unlink_ok = False\<rparr>)])],
        \<lparr>operation_type = ''Temporary Files'', files_processed = 2, files_deleted = 0,
           space_freed = 0, errors = 2,
           details = [Processed_files 2 0, Space_freed_bytes 0]\<rparr>)
   \<and> cleanup_temp_files \<lparr>TEMP = Some [''T''], TMP = None, home = [''C:'', ''Users'', ''nick'']\<rparr>
       (plain_dir [(''T'', plain_dir [(''held.tmp'',
          File \<lparr>st_size = 10, in_use = False, stat_ok = True, unlink_ok = False\<rparr>)])])
     = (plain_dir [(''T'', plain_dir [(''held.tmp'',
          File \<lparr>st_size = 10, in_use = False, stat_ok = True, unlink_ok = False\<rparr>)])],
        \<lparr>operation_type = ''Temporary Files'', files_processed = 1, files_deleted = 0,
           space_freed = 0, errors = 1,
           details = [Processed_files 1 0, Space_freed_bytes 0]\<rparr>)
   \<and> clean_temp_files
       \<lparr>TEMP = Some [''T''], TMP = Some [''T''], home = [''C:'', ''Users'', ''nick'']\<rparr>
       (\<lambda>xs. xs) []
       (plain_dir [(''T'', plain_dir [(''held.tmp'',
          File \<lparr>st_size = 10, in_use = False, stat_ok = True, unlink_ok = False\<rparr>)])])
       new_tool
     = Inr (\<lparr>summary_files_deleted = 0, summary_size_freed = 0, directories_processed = 1\<rparr>,
            plain_dir [(''T'', plain_dir [(''held.tmp'',
              File \<lparr>st_size = 10, in_use = False, stat_ok = True, unlink_ok = False\<rparr>)])],
            \<lparr>temp_files_deleted = 0, temp_size_freed = 0, browser_caches_cleared = 0,
               errors_encountered = 1,
               logger = [Error_failed_delete [''T'', ''held.tmp''] PermissionError]\<rparr>)"
  by code_simp

section \<open>Properties of the progress notifications\<close>

lemma update_progress_fields:
  "progress_calls (update_progress p m e) =
     (if progress_callback e then progress_calls e @ [(p, m)] else progress_calls e)"
  "progress_callback (update_progress p m e) = progress_callback e"
  "status_callback (update_progress p m e) = status_callback e"
  "before_state (update_progress p m e) = before_state e"
  "after_state (update_progress p m e) = after_state e"
  "cleanup_results (update_progress p m e) = cleanup_results e"
  by (simp_all add: update_progress_def Let_def)

text \<open>Claim C6, evaluated where the code departs from it. In every run of
  \<^verbatim>\<open>perform_one_click_cleanup\<close> with a progress callback set, whatever the system answers,
  the notifications of the run begin with the percentage 5 followed by the percentage 0:
  \<^verbatim>\<open>capture_system_state\<close>, called inside the run, reports 0.\<close>

theorem progress_goes_back_to_zero:
  assumes "progress_callback e"
  shows "\<exists>rest. progress_calls (snd (snd (perform_one_click_cleanup env os fs e))) =
           progress_calls e @ (5, ''Capturing system state before cleanup...'')
             # (0, ''Analyzing system state...'') # rest"
  using assms
  by (simp add: perform_one_click_cleanup_def capture_system_state_def Let_def
      update_progress_fields split: sum.splits prod.splits)

text \<open>Witness for C6: a complete run that succeeds, on an empty file tree. The percentages
  delivered are 5, 0, 25, 35, 45, 55, 65, 75, 85, 0, 95, 100.\<close>

theorem progress_goes_back_to_zero_witness:
  "progress_callback fresh_engine
   \<and> map fst (progress_calls (snd (snd (perform_one_click_cleanup
        \<lparr>TEMP = None, TMP = None, home = [''C:'', ''Users'', ''nick'']\<rparr> quiet_answers
        (plain_dir []) fresh_engine))))
      = [5, 0, 25, 35, 45, 55, 65, 75, 85, 0, 95, 100]
   \<and> \<not> sorted (map fst (progress_calls (snd (snd (perform_one_click_cleanup
        \<lparr>TEMP = None, TMP = None, home = [''C:'', ''Users'', ''nick'']\<rparr> quiet_answers
        (plain_dir []) fresh_engine)))))"
proof -
  let ?run = "perform_one_click_cleanup
        \<lparr>TEMP = None, TMP = None, home = [''C:'', ''Users'', ''nick'']\<rparr> quiet_answers
        (plain_dir []) fresh_engine"
  have cb: "progress_callback fresh_engine" by (simp add: fresh_engine_def)
  have all: "map fst (progress_calls (snd (snd ?run)))
      = [5, 0, 25, 35, 45, 55, 65, 75, 85, 0, 95, 100]"
    by (simp add: perform_one_click_cleanup_def capture_system_state_def Let_def
        fresh_engine_def quiet_answers_def update_progress_fields split: sum.splits prod.splits)
  from progress_goes_back_to_zero[OF cb, of _ quiet_answers "plain_dir []"]
  obtain rest where "progress_calls (snd (snd ?run)) =
      progress_calls fresh_engine @ (5, ''Capturing system state before cleanup...'')
             # (0, ''Analyzing system state...'') # rest" by blast
  then have "\<not> sorted (map fst (progress_calls (snd (snd ?run))))"
    by (simp add: fresh_engine_def)
  with cb all show ?thesis by blast
qed

section \<open>Properties of the browser cache cleaner\<close>

lemma scan_processes_counters:
  "scan_processes b names procs c = (r, c1) \<Longrightarrow>
     browsers_cleaned c1 = browsers_cleaned c \<and> cache_size_freed c1 = cache_size_freed c"
  by (induction b names procs c rule: scan_processes.induct) (auto split: if_splits)

lemma is_browser_running_counters:
  "is_browser_running h procs b c = (r, c1) \<Longrightarrow>
     browsers_cleaned c1 = browsers_cleaned c \<and> cache_size_freed c1 = cache_size_freed c"
  by (auto simp: is_browser_running_def split: option.splits dest: scan_processes_counters)

lemma is_browser_running_known:
  "is_browser_running h procs b c = (Inr True, c1) \<Longrightarrow> browser_configs h b \<noteq> None"
  by (auto simp: is_browser_running_def split: option.splits)

text \<open>Claim C10. When \<^verbatim>\<open>clean_browser_cache\<close> is called with \<open>force = False\<close> and
  \<^verbatim>\<open>is_browser_running\<close> reports the browser as running, it returns the failure dictionary
  with \<open>size_freed = 0\<close>, the whole file tree is exactly as before (so every cache path of
  the browser is unchanged), and the counters of the cleaner are unchanged; only the warning
  logged by \<^verbatim>\<open>is_browser_running\<close> is new.\<close>

theorem running_browser_is_not_cleaned:
  assumes "is_browser_running h procs browser_name c = (Inr True, c1)"
  shows "clean_browser_cache h procs browser_name False fs c =
           Inr (\<lparr>success = False,
                  error = Some (browser_name @
                       '' is currently running. Close it first or use force=True''),
                  browser = None, paths_cleaned = None, size_freed = Some 0,
                  errors_list = None\<rparr>, fs, c1)
         \<and> browsers_cleaned c1 = browsers_cleaned c \<and> cache_size_freed c1 = cache_size_freed c"
  using assms is_browser_running_known[OF assms] is_browser_running_counters[OF assms]
  by (auto simp: clean_browser_cache_def)

text \<open>Witness for C10: Chrome is running (as \<^verbatim>\<open>Chrome.EXE\<close>, pid 4242) and its cache
  directory holds a file of 100 bytes.\<close>

theorem running_browser_is_not_cleaned_witness:
  "is_browser_running [''C:'', ''Users'', ''nick''] [(Some ''System'', 4), (Some ''Chrome.EXE'', 4242)]
       ''Chrome'' \<lparr>browsers_cleaned = 0, cache_size_freed = 0, cleaner_logger = []\<rparr>
     = (Inr True, \<lparr>browsers_cleaned = 0, cache_size_freed = 0,
                    cleaner_logger = [Warning_running ''Chrome'' 4242]\<rparr>)
   \<and> clean_browser_cache [''C:'', ''Users'', ''nick'']
        [(Some ''System'', 4), (Some ''Chrome.EXE'', 4242)] ''Chrome'' False chrome_fs
        \<lparr>browsers_cleaned = 0, cache_size_freed = 0, cleaner_logger = []\<rparr>
     = Inr (\<lparr>success = False,
             error = Some ''Chrome is currently running. Close it first or use force=True'',
             browser = None, paths_cleaned = None, size_freed = Some 0, errors_list = None\<rparr>,
            chrome_fs,
            \<lparr>browsers_cleaned = 0, cache_size_freed = 0,
               cleaner_logger = [Warning_running ''Chrome'' 4242]\<rparr>)"
proof -
  have running:
    "is_browser_running [''C:'', ''Users'', ''nick''] [(Some ''System'', 4), (Some ''Chrome.EXE'', 4242)]
       ''Chrome'' \<lparr>browsers_cleaned = 0, cache_size_freed = 0, cleaner_logger = []\<rparr>
     = (Inr True, \<lparr>browsers_cleaned = 0, cache_size_freed = 0,
                    cleaner_logger = [Warning_running ''Chrome'' 4242]\<rparr>)"
    by code_simp
  show ?thesis
    using running running_browser_is_not_cleaned[OF running, of chrome_fs] by simp
qed

section \<open>Accounting of the freed bytes\<close>
















end
